theory Spec2Isabelle
  imports Complex_Main
begin

section \<open>The host: JavaScript numbers and the values the tables hold\<close>

text \<open>
  The calculator computes with the numbers of its host. A number is modelled by its
  special values and, in the finite range, by the real it denotes: \<open>Fin r\<close> (with
  \<open>Fin 0\<close> the positive zero), the negative zero, the two infinities and not-a-number.
  Rounding is not modelled: arithmetic on \<open>Fin\<close> is exact. A literal beyond the finite
  range is read as infinity (\<open>to_number\<close> below). The operators follow ECMAScript on the
  special values.
\<close>

datatype jsnum = Fin real | NegZero | PosInf | NegInf | NaN

fun sign_bit :: "jsnum \<Rightarrow> bool" where
  "sign_bit (Fin r) = (r < 0)"
| "sign_bit NegZero = True"
| "sign_bit PosInf = False"
| "sign_bit NegInf = True"
| "sign_bit NaN = False"

fun to_real :: "jsnum \<Rightarrow> real" where
  "to_real (Fin r) = r"
| "to_real _ = 0"

definition is_inf :: "jsnum \<Rightarrow> bool" where
  "is_inf a = (a = PosInf \<or> a = NegInf)"

definition is_zero :: "jsnum \<Rightarrow> bool" where
  "is_zero a = (a = Fin 0 \<or> a = NegZero)"

definition signed_zero :: "bool \<Rightarrow> jsnum" where
  "signed_zero neg = (if neg then NegZero else Fin 0)"

definition signed_inf :: "bool \<Rightarrow> jsnum" where
  "signed_inf neg = (if neg then NegInf else PosInf)"

text \<open>Unary minus: \<^verbatim>\<open>-a\<close>.\<close>

fun js_neg :: "jsnum \<Rightarrow> jsnum" where
  "js_neg (Fin r) = (if r = 0 then NegZero else Fin (- r))"
| "js_neg NegZero = Fin 0"
| "js_neg PosInf = NegInf"
| "js_neg NegInf = PosInf"
| "js_neg NaN = NaN"

text \<open>\<^verbatim>\<open>a + b\<close> and \<^verbatim>\<open>a - b\<close> on numbers.\<close>

fun js_add :: "jsnum \<Rightarrow> jsnum \<Rightarrow> jsnum" where
  "js_add NaN _ = NaN"
| "js_add _ NaN = NaN"
| "js_add PosInf NegInf = NaN"
| "js_add NegInf PosInf = NaN"
| "js_add PosInf _ = PosInf"
| "js_add _ PosInf = PosInf"
| "js_add NegInf _ = NegInf"
| "js_add _ NegInf = NegInf"
| "js_add NegZero b = b"
| "js_add a NegZero = a"
| "js_add (Fin a) (Fin b) = Fin (a + b)"

definition js_sub :: "jsnum \<Rightarrow> jsnum \<Rightarrow> jsnum" where
  "js_sub a b = js_add a (js_neg b)"

text \<open>\<^verbatim>\<open>a * b\<close>: the sign of the result is the exclusive or of the signs.\<close>

definition js_mul :: "jsnum \<Rightarrow> jsnum \<Rightarrow> jsnum" where
  "js_mul a b =
     (if a = NaN \<or> b = NaN then NaN
      else if (is_inf a \<and> is_zero b) \<or> (is_zero a \<and> is_inf b) then NaN
      else if is_inf a \<or> is_inf b then signed_inf (sign_bit a \<noteq> sign_bit b)
      else if to_real a * to_real b = 0 then signed_zero (sign_bit a \<noteq> sign_bit b)
      else Fin (to_real a * to_real b))"

text \<open>
  \<^verbatim>\<open>a / b\<close>: a zero divisor is no error. A non-zero dividend gives an infinity of the
  combined sign, a zero dividend gives not-a-number.
\<close>

definition js_div :: "jsnum \<Rightarrow> jsnum \<Rightarrow> jsnum" where
  "js_div a b =
     (if a = NaN \<or> b = NaN then NaN
      else if is_inf a then (if is_inf b then NaN else signed_inf (sign_bit a \<noteq> sign_bit b))
      else if is_inf b then signed_zero (sign_bit a \<noteq> sign_bit b)
      else if is_zero b then (if is_zero a then NaN else signed_inf (sign_bit a \<noteq> sign_bit b))
      else if is_zero a then signed_zero (sign_bit a \<noteq> sign_bit b)
      else Fin (to_real a / to_real b))"

text \<open>The comparison \<^verbatim>\<open>a == b\<close> on numbers: not-a-number equals nothing, the zeros are equal.\<close>

definition js_eq :: "jsnum \<Rightarrow> jsnum \<Rightarrow> bool" where
  "js_eq a b = (a \<noteq> NaN \<and> b \<noteq> NaN \<and> (a = b \<or> (is_zero a \<and> is_zero b)))"

text \<open>
  \<^verbatim>\<open>Math.pow(b, e)\<close>, case by case as ECMAScript lists them: a zero exponent gives 1
  whatever the base (so \<^verbatim>\<open>Math.pow(0, 0)\<close> is 1), a negative finite base with an exponent
  that is no integer gives not-a-number.
\<close>

definition odd_integer :: "jsnum \<Rightarrow> bool" where
  "odd_integer e = (case e of Fin r \<Rightarrow> r \<in> \<int> \<and> odd \<lfloor>r\<rfloor> | _ \<Rightarrow> False)"

definition Math_pow :: "jsnum \<Rightarrow> jsnum \<Rightarrow> jsnum" where
  "Math_pow b e =
     (if e = NaN then NaN
      else if is_zero e then Fin 1
      else if b = NaN then NaN
      else if is_inf e then
        (if is_inf b \<or> \<bar>to_real b\<bar> > 1 then (if e = PosInf then PosInf else Fin 0)
         else if \<bar>to_real b\<bar> = 1 then NaN
         else (if e = PosInf then Fin 0 else PosInf))
      else if b = PosInf then (if to_real e > 0 then PosInf else Fin 0)
      else if b = NegInf then
        (if to_real e > 0 then (if odd_integer e then NegInf else PosInf)
         else (if odd_integer e then NegZero else Fin 0))
      else if b = Fin 0 then (if to_real e > 0 then Fin 0 else PosInf)
      else if b = NegZero then
        (if to_real e > 0 then (if odd_integer e then NegZero else Fin 0)
         else (if odd_integer e then NegInf else PosInf))
      else if to_real b > 0 then Fin (to_real b powr to_real e)
      else if to_real e \<in> \<int> then
        (if odd_integer e then Fin (- (\<bar>to_real b\<bar> powr to_real e))
         else Fin (\<bar>to_real b\<bar> powr to_real e))
      else NaN)"

text \<open>The functions of \<^verbatim>\<open>Math\<close> that the function table names.\<close>

definition Math_abs :: "jsnum \<Rightarrow> jsnum" where
  "Math_abs a = (case a of Fin r \<Rightarrow> Fin \<bar>r\<bar> | NegZero \<Rightarrow> Fin 0 | PosInf \<Rightarrow> PosInf
     | NegInf \<Rightarrow> PosInf | NaN \<Rightarrow> NaN)"

definition Math_acos :: "jsnum \<Rightarrow> jsnum" where
  "Math_acos a = (case a of Fin r \<Rightarrow> (if \<bar>r\<bar> > 1 then NaN else Fin (arccos r))
     | NegZero \<Rightarrow> Fin (arccos 0) | _ \<Rightarrow> NaN)"

definition Math_asin :: "jsnum \<Rightarrow> jsnum" where
  "Math_asin a = (case a of Fin r \<Rightarrow> (if \<bar>r\<bar> > 1 then NaN else Fin (arcsin r))
     | NegZero \<Rightarrow> NegZero | _ \<Rightarrow> NaN)"

definition Math_atan :: "jsnum \<Rightarrow> jsnum" where
  "Math_atan a = (case a of Fin r \<Rightarrow> Fin (arctan r) | NegZero \<Rightarrow> NegZero
     | PosInf \<Rightarrow> Fin (pi / 2) | NegInf \<Rightarrow> Fin (- pi / 2) | NaN \<Rightarrow> NaN)"

definition Math_ceil :: "jsnum \<Rightarrow> jsnum" where
  "Math_ceil a = (case a of
       Fin r \<Rightarrow> (if - 1 < r \<and> r < 0 then NegZero else Fin (of_int \<lceil>r\<rceil>))
     | _ \<Rightarrow> a)"

definition Math_cos :: "jsnum \<Rightarrow> jsnum" where
  "Math_cos a = (case a of Fin r \<Rightarrow> Fin (cos r) | NegZero \<Rightarrow> Fin 1 | _ \<Rightarrow> NaN)"

definition Math_exp :: "jsnum \<Rightarrow> jsnum" where
  "Math_exp a = (case a of Fin r \<Rightarrow> Fin (exp r) | NegZero \<Rightarrow> Fin 1 | PosInf \<Rightarrow> PosInf
     | NegInf \<Rightarrow> Fin 0 | NaN \<Rightarrow> NaN)"

definition Math_floor :: "jsnum \<Rightarrow> jsnum" where
  "Math_floor a = (case a of Fin r \<Rightarrow> Fin (of_int \<lfloor>r\<rfloor>) | _ \<Rightarrow> a)"

definition Math_log :: "jsnum \<Rightarrow> jsnum" where
  "Math_log a = (case a of
       Fin r \<Rightarrow> (if r < 0 then NaN else if r = 0 then NegInf else Fin (ln r))
     | NegZero \<Rightarrow> NegInf | PosInf \<Rightarrow> PosInf | _ \<Rightarrow> NaN)"

definition Math_round :: "jsnum \<Rightarrow> jsnum" where
  "Math_round a = (case a of
       Fin r \<Rightarrow> (if - (1 / 2) \<le> r \<and> r < 0 then NegZero else Fin (of_int \<lfloor>r + 1 / 2\<rfloor>))
     | _ \<Rightarrow> a)"

definition Math_sin :: "jsnum \<Rightarrow> jsnum" where
  "Math_sin a = (case a of Fin r \<Rightarrow> Fin (sin r) | NegZero \<Rightarrow> NegZero | _ \<Rightarrow> NaN)"

definition Math_sqrt :: "jsnum \<Rightarrow> jsnum" where
  "Math_sqrt a = (case a of Fin r \<Rightarrow> (if r < 0 then NaN else Fin (sqrt r))
     | NegZero \<Rightarrow> NegZero | PosInf \<Rightarrow> PosInf | _ \<Rightarrow> NaN)"

definition Math_tan :: "jsnum \<Rightarrow> jsnum" where
  "Math_tan a = (case a of Fin r \<Rightarrow> Fin (tan r) | NegZero \<Rightarrow> NegZero | _ \<Rightarrow> NaN)"

definition Math_E :: jsnum where
  "Math_E = Fin (exp 1)"

definition Math_PI :: jsnum where
  "Math_PI = Fin pi"

text \<open>
  \<^verbatim>\<open>parseInt\<close> and \<^verbatim>\<open>parseFloat\<close>, on the strings the tokenizer hands them: an optional
  minus sign, decimal digits, and for \<^verbatim>\<open>parseFloat\<close> a dot and more digits. A string with no
  digit gives not-a-number, and digits are read as decimal, a leading zero included; a
  numeral too large for the finite range gives infinity. (The
  host also reads white space, a plus sign and an exponent; no string matched by the
  tokenizer's patterns has them.)
\<close>

definition is_digit :: "char \<Rightarrow> bool" where
  "is_digit c = (c \<in> set ''0123456789'')"

definition digits_value :: "string \<Rightarrow> nat" where
  "digits_value ds = foldl (\<lambda>a c. 10 * a + (of_char c - 48)) 0 ds"

definition strip_minus :: "string \<Rightarrow> string \<times> string" where
  "strip_minus s = (case s of [] \<Rightarrow> ([], [])
     | c # cs \<Rightarrow> (if c = CHR ''-'' then ([c], cs) else ([], s)))"

text \<open>
  The number a decimal numeral is read as. The largest finite number is
  \<open>2 ^ 1024 - 2 ^ 971\<close>; a decimal at or above \<open>2 ^ 1024 - 2 ^ 970\<close>, half way to
  \<open>2 ^ 1024\<close>, is read as infinity. Below that it is the real it denotes.
\<close>

definition to_number :: "real \<Rightarrow> jsnum" where
  "to_number r = (if 2 ^ 1024 - 2 ^ 970 \<le> r then PosInf else Fin r)"

definition with_sign :: "string \<Rightarrow> real \<Rightarrow> jsnum" where
  "with_sign sg r = (if sg = [] then to_number r else js_neg (to_number r))"

definition parseInt :: "string \<Rightarrow> jsnum" where
  "parseInt s =
     (let (sg, r) = strip_minus s; ds = takeWhile is_digit r
      in if ds = [] then NaN else with_sign sg (real (digits_value ds)))"

definition parseFloat :: "string \<Rightarrow> jsnum" where
  "parseFloat s =
     (let (sg, r) = strip_minus s;
          ip = takeWhile is_digit r;
          fp = (case dropWhile is_digit r of [] \<Rightarrow> []
                | d # r2 \<Rightarrow> (if d = CHR ''.'' then takeWhile is_digit r2 else []))
      in if ip = [] \<and> fp = [] then NaN
         else with_sign sg (real (digits_value ip) + real (digits_value fp) / 10 ^ length fp))"

text \<open>
  A value of the host that a table lookup can give and a token can hold: a number, one of
  the functions of the function table, or a member of \<^verbatim>\<open>Object.prototype\<close>.
\<close>

datatype func = Fabs | Facos | Fasin | Fatan | Fceil | Fcos | Fexp | Ffloor | Flog | Fround
  | Fsin | Fsinc | Fsqrt | Ftan

datatype jsval = Number jsnum | Callable func | PrototypeMember string

text \<open>
  The tables are object literals, so \<^verbatim>\<open>table[name]\<close> is a property read: the object's own
  property if it has one, else the property of that name on \<^verbatim>\<open>Object.prototype\<close>, else
  \<^verbatim>\<open>undefined\<close> (\<open>None\<close>). \<open>Object_prototype\<close> lists the names every object inherits.
\<close>

definition Object_prototype :: "string list" where
  "Object_prototype = [''constructor'', ''toString'', ''toLocaleString'', ''valueOf'',
     ''hasOwnProperty'', ''isPrototypeOf'', ''propertyIsEnumerable'', ''__proto__'',
     ''__defineGetter__'', ''__defineSetter__'', ''__lookupGetter__'', ''__lookupSetter__'']"

definition get_property :: "(string \<times> jsval) list \<Rightarrow> string \<Rightarrow> jsval option" where
  "get_property obj name =
     (case map_of obj name of Some v \<Rightarrow> Some v
      | None \<Rightarrow> (if name \<in> set Object_prototype then Some (PrototypeMember name) else None))"

section \<open>Tokens\<close>

text \<open>
  A token is an object with its \<^verbatim>\<open>nud\<close> and \<^verbatim>\<open>led\<close> closures and the fields the closures
  capture. The constructors keep what each \<^verbatim>\<open>create_*_token\<close> captures; \<open>EndToken\<close> is the
  object \<^verbatim>\<open>{lbp: 0, type: 'end'}\<close> that \<^verbatim>\<open>state.token\<close> returns at the end.
\<close>

datatype token =
    Operator string int int int
  | ValueToken jsval
  | FunctionToken jsval
  | VariableToken string
  | RParen
  | LParen
  | EndToken

definition create_operator_token :: "string \<Rightarrow> int \<Rightarrow> int \<Rightarrow> int \<Rightarrow> token" where
  "create_operator_token str bp right_assoc also_unary = Operator str bp right_assoc also_unary"

definition create_value_token :: "jsval \<Rightarrow> token" where
  "create_value_token val = ValueToken val"

definition create_function_token :: "jsval \<Rightarrow> token" where
  "create_function_token func = FunctionToken func"

definition create_variable_token :: "string \<Rightarrow> token" where
  "create_variable_token name = VariableToken name"

text \<open>
  The \<^verbatim>\<open>lbp\<close> field: operators and parentheses have one, the value, function and variable
  tokens do not (\<open>None\<close> is \<^verbatim>\<open>undefined\<close>).
\<close>

fun lbp :: "token \<Rightarrow> int option" where
  "lbp (Operator str bp right_assoc also_unary) = Some bp"
| "lbp RParen = Some 0"
| "lbp LParen = Some 80"
| "lbp EndToken = Some 0"
| "lbp _ = None"

definition function_table :: "(string \<times> jsval) list" where
  "function_table = [(''abs'', Callable Fabs), (''acos'', Callable Facos),
     (''asin'', Callable Fasin), (''atan'', Callable Fatan), (''ceil'', Callable Fceil),
     (''cos'', Callable Fcos), (''exp'', Callable Fexp), (''floor'', Callable Ffloor),
     (''log'', Callable Flog), (''round'', Callable Fround), (''sin'', Callable Fsin),
     (''sinc'', Callable Fsinc), (''sqrt'', Callable Fsqrt), (''tan'', Callable Ftan)]"

definition constant_table :: "(string \<times> jsval) list" where
  "constant_table = [(''E'', Number Math_E), (''e'', Number Math_E),
     (''pi'', Number Math_PI), (''PI'', Number Math_PI)]"

section \<open>The tokenizer\<close>

text \<open>
  What the source throws: a string (\<open>Thrown\<close>, with the message). \<open>TypeError\<close> is
  the host's exception for a call of something that is no function. \<open>NonNumeric\<close> marks
  the places where a value that is no number is produced (a member of \<^verbatim>\<open>Object.prototype\<close>
  is called or returned): the model of evaluation is over numbers and stops there.
  \<open>OutOfFuel\<close> belongs to the model alone: the parser below recurses on a counter, and
  \<open>parse_never_out_of_fuel\<close> shows that \<open>parse\<close> never returns it.
\<close>

datatype error = Thrown string | TypeError string | NonNumeric string | OutOfFuel

text \<open>
  The three patterns. \<^verbatim>\<open>/^-?[0-9]+/\<close>, \<^verbatim>\<open>/^-?(([0-9]+\.[0-9]*)|(\.[0-9]+))/\<close> and
  \<^verbatim>\<open>/^[a-zA-Z_][a-zA-Z0-9_]*/\<close>; each function returns \<^verbatim>\<open>match[0]\<close>, or \<open>None\<close> for
  \<^verbatim>\<open>null\<close>.
\<close>

definition reg_int :: "string \<Rightarrow> string option" where
  "reg_int str =
     (let (sg, r) = strip_minus str; ds = takeWhile is_digit r
      in if ds = [] then None else Some (sg @ ds))"

definition reg_float :: "string \<Rightarrow> string option" where
  "reg_float str =
     (let (sg, r) = strip_minus str; ds = takeWhile is_digit r
      in case dropWhile is_digit r of
           [] \<Rightarrow> None
         | d # r2 \<Rightarrow>
             (if d = CHR ''.'' \<and> ds \<noteq> [] then Some (sg @ ds @ [d] @ takeWhile is_digit r2)
              else if d = CHR ''.'' \<and> ds = [] \<and> takeWhile is_digit r2 \<noteq> []
                then Some (sg @ [d] @ takeWhile is_digit r2)
              else None))"

definition is_sym_start :: "char \<Rightarrow> bool" where
  "is_sym_start c = (c \<in> set ''abcdefghijklmnopqrstuvwxyzABCDEFGHIJKLMNOPQRSTUVWXYZ_'')"

definition is_sym_char :: "char \<Rightarrow> bool" where
  "is_sym_char c = (is_sym_start c \<or> is_digit c)"

definition reg_sym :: "string \<Rightarrow> string option" where
  "reg_sym str = (case str of [] \<Rightarrow> None
     | c # cs \<Rightarrow> (if is_sym_start c then Some (c # takeWhile is_sym_char cs) else None))"

lemma reg_float_nonempty: "reg_float str = Some m \<Longrightarrow> m \<noteq> []"
  by (auto simp: reg_float_def Let_def split: prod.splits list.splits if_splits)

lemma reg_int_nonempty: "reg_int str = Some m \<Longrightarrow> m \<noteq> []"
  by (auto simp: reg_int_def Let_def split: prod.splits if_splits)

lemma reg_sym_nonempty: "reg_sym str = Some m \<Longrightarrow> m \<noteq> []"
  by (auto simp: reg_sym_def split: list.splits if_splits)

text \<open>
  \<^verbatim>\<open>lex_scan\<close>: the loop \<^verbatim>\<open>while (i < il)\<close> over \<^verbatim>\<open>str = exp_str.slice(i)\<close>, with the
  tokens pushed so far. The switch on \<^verbatim>\<open>str[0]\<close> comes first, then the float pattern, the
  integer pattern and the symbol pattern. Every turn consumes a character or throws, which
  is the termination argument. A character outside ASCII matches nothing and is refused
  with the rest of the input.
\<close>

function lex_loop :: "token list \<Rightarrow> string \<Rightarrow> error + token list" where
  "lex_loop tokens [] = Inr tokens"
| "lex_loop tokens (c # cs) =
     (if c = CHR ''+'' \<or> c = CHR ''-'' then
        lex_loop (tokens @ [create_operator_token [c] 50 0 1]) cs
      else if c = CHR ''*'' \<or> c = CHR ''/'' then
        lex_loop (tokens @ [create_operator_token [c] 60 0 0]) cs
      else if c = CHR ''^'' then
        lex_loop (tokens @ [create_operator_token [c] 75 1 0]) cs
      else if c = CHR '')'' then lex_loop (tokens @ [RParen]) cs
      else if c = CHR ''('' then lex_loop (tokens @ [LParen]) cs
      else if c = CHR '' '' \<or> c = CHR 0x09 \<or> c = CHR 0x0D \<or> c = CHR 0x0A then
        lex_loop tokens cs
      else
        (case reg_float (c # cs) of
           Some m \<Rightarrow>
             lex_loop (tokens @ [create_value_token (Number (parseFloat m))])
               (drop (length m) (c # cs))
         | None \<Rightarrow>
        (case reg_int (c # cs) of
           Some m \<Rightarrow>
             lex_loop (tokens @ [create_value_token (Number (parseInt m))])
               (drop (length m) (c # cs))
         | None \<Rightarrow>
        (case reg_sym (c # cs) of
           Some m \<Rightarrow>
             (if m = ''x'' \<or> m = ''y'' then
                lex_loop (tokens @ [create_variable_token m]) (drop (length m) (c # cs))
              else
                (case get_property function_table m of
                   Some func \<Rightarrow>
                     lex_loop (tokens @ [create_function_token func])
                       (drop (length m) (c # cs))
                 | None \<Rightarrow>
                (case get_property constant_table m of
                   Some con \<Rightarrow>
                     lex_loop (tokens @ [create_value_token con]) (drop (length m) (c # cs))
                 | None \<Rightarrow> Inl (Thrown (''unknown symbol '' @ m)))))
         | None \<Rightarrow> Inl (Thrown (''Failed in processing input: '' @ c # cs))))))"
  by pat_completeness auto
termination
proof (relation "measure (\<lambda>(tokens, str). length str)")
  show "wf (measure (\<lambda>(tokens, str). length str))"
    by simp
qed (auto dest: reg_float_nonempty reg_int_nonempty reg_sym_nonempty)

definition lex_scan :: "string \<Rightarrow> error + token list" where
  "lex_scan exp_str = lex_loop [] exp_str"

section \<open>The parser\<close>

text \<open>
  A node of the tree is the token object itself, with the fields \<^verbatim>\<open>type\<close>, \<^verbatim>\<open>value\<close>,
  \<^verbatim>\<open>left\<close> and \<^verbatim>\<open>right\<close> that \<^verbatim>\<open>nud\<close> and \<^verbatim>\<open>led\<close> set. A child is a \<open>tree option\<close>:
  \<open>None\<close> is \<^verbatim>\<open>undefined\<close>, what \<^verbatim>\<open>expression\<close> returns at the end of the tokens.
  \<open>OpU str\<close> has the type \<^verbatim>\<open>"op_u" + str\<close> and \<open>OpB str\<close> the type \<^verbatim>\<open>"op_b" + str\<close>.
\<close>

datatype tree =
    Value jsval
  | Variable string
  | Function jsval "tree option"
  | OpU string "tree option"
  | OpB string "tree option" "tree option"

record state =
  tokens :: "token list"
  i :: nat

definition at_end :: "state \<Rightarrow> bool" where
  "at_end s = (i s \<ge> length (tokens s))"

definition token :: "state \<Rightarrow> token" where
  "token s = (if at_end s then EndToken else tokens s ! i s)"

definition advance :: "state \<Rightarrow> state" where
  "advance s = s\<lparr>i := i s + 1\<rparr>"

text \<open>The \<^verbatim>\<open>type\<close> field of a token that has not been parsed yet (an operator has none).\<close>

fun ttype :: "token \<Rightarrow> string option" where
  "ttype (Operator str bp right_assoc also_unary) = None"
| "ttype (ValueToken val) = Some ''value''"
| "ttype (FunctionToken func) = Some ''function''"
| "ttype (VariableToken name) = Some ''variable''"
| "ttype RParen = Some '')''"
| "ttype LParen = Some ''(''"
| "ttype EndToken = Some ''end''"

type_synonym parsed = "error + tree option \<times> state"

text \<open>
  \<^verbatim>\<open>nud\<close> and \<^verbatim>\<open>led\<close> receive the state object and call its \<^verbatim>\<open>expression\<close> method; here
  the method is the first argument. The end object has neither \<^verbatim>\<open>nud\<close> nor \<^verbatim>\<open>led\<close>.
\<close>

fun nud :: "(int \<Rightarrow> state \<Rightarrow> parsed) \<Rightarrow> token \<Rightarrow> state \<Rightarrow> parsed" where
  "nud expression (Operator str bp right_assoc also_unary) s =
     (if also_unary \<noteq> 1 then Inl (Thrown ''error in operator nud'')
      else (case expression 70 s of
              Inl err \<Rightarrow> Inl err
            | Inr (left, s') \<Rightarrow> Inr (Some (OpU str left), s')))"
| "nud expression (ValueToken val) s = Inr (Some (Value val), s)"
| "nud expression (FunctionToken func) s =
     (case expression 70 s of
        Inl err \<Rightarrow> Inl err
      | Inr (left, s') \<Rightarrow> Inr (Some (Function func left), s'))"
| "nud expression (VariableToken name) s = Inr (Some (Variable name), s)"
| "nud expression RParen s =
     Inl (Thrown (''Internal error: nud called on '' @ [CHR 0x27, CHR '')'', CHR 0x27]))"
| "nud expression LParen s =
     (case expression 0 s of
        Inl err \<Rightarrow> Inl err
      | Inr (e, s') \<Rightarrow>
          (if ttype (token s') \<noteq> Some '')'' then Inl (Thrown ''Unmatched left parenthesis.'')
           else Inr (e, advance s')))"
| "nud expression EndToken s = Inl (TypeError ''t.nud is not a function'')"

fun led :: "(int \<Rightarrow> state \<Rightarrow> parsed) \<Rightarrow> token \<Rightarrow> tree option \<Rightarrow> state \<Rightarrow> parsed" where
  "led expression (Operator str bp right_assoc also_unary) left s =
     (case expression (bp - right_assoc) s of
        Inl err \<Rightarrow> Inl err
      | Inr (right, s') \<Rightarrow> Inr (Some (OpB str left right), s'))"
| "led expression (ValueToken val) left s = Inl (Thrown ''led called on a value token.'')"
| "led expression (FunctionToken func) left s =
     Inl (Thrown ''Internal error: led called on a function.'')"
| "led expression (VariableToken name) left s =
     Inl (Thrown ''Internal error: led called on a variable.'')"
| "led expression RParen left s =
     Inl (Thrown (''Internal error: led called on '' @ [CHR 0x27, CHR '')'', CHR 0x27]))"
| "led expression LParen left s =
     Inl (Thrown (''Interal error, led called on '' @ [CHR 0x27, CHR ''('', CHR 0x27]))"
| "led expression EndToken left s = Inl (TypeError ''t.led is not a function'')"

text \<open>
  The comparison \<^verbatim>\<open>rbp < s.token().lbp\<close>: with \<^verbatim>\<open>undefined\<close> on the right it is false.
\<close>

definition binds_tighter :: "int \<Rightarrow> int option \<Rightarrow> bool" where
  "binds_tighter rbp l = (case l of None \<Rightarrow> False | Some b \<Rightarrow> rbp < b)"

text \<open>
  \<^verbatim>\<open>state.expression\<close> and its \<^verbatim>\<open>while\<close> loop. The recursion of the source is on the
  position in the tokens, through \<^verbatim>\<open>nud\<close> and \<^verbatim>\<open>led\<close>; the model recurses on a counter
  that \<open>create_parse_tree\<close> starts above the number of tokens.
\<close>

fun expression :: "nat \<Rightarrow> int \<Rightarrow> state \<Rightarrow> parsed"
  and led_loop :: "nat \<Rightarrow> int \<Rightarrow> tree option \<Rightarrow> state \<Rightarrow> parsed" where
  "expression 0 rbp s = Inl OutOfFuel"
| "expression (Suc n) rbp s =
     (if at_end s then Inr (None, s)
      else (case nud (expression n) (token s) (advance s) of
              Inl err \<Rightarrow> Inl err
            | Inr (left, s') \<Rightarrow> led_loop n rbp left s'))"
| "led_loop 0 rbp left s = Inl OutOfFuel"
| "led_loop (Suc n) rbp left s =
     (if binds_tighter rbp (lbp (token s)) then
        (case led (expression n) (token s) left (advance s) of
           Inl err \<Rightarrow> Inl err
         | Inr (left', s') \<Rightarrow> led_loop n rbp left' s')
      else Inr (left, s))"

definition create_parse_tree :: "token list \<Rightarrow> error + tree option" where
  "create_parse_tree toks =
     (case expression (Suc (length toks)) 0 \<lparr>tokens = toks, i = 0\<rparr> of
        Inl err \<Rightarrow> Inl err
      | Inr (t, s) \<Rightarrow> Inr t)"

definition parse :: "string \<Rightarrow> error + tree option" where
  "parse input = (case lex_scan input of
       Inl err \<Rightarrow> Inl err
     | Inr toks \<Rightarrow> create_parse_tree toks)"

section \<open>The evaluator\<close>

text \<open>The function \<^verbatim>\<open>sinc\<close> of the function table.\<close>

definition sinc :: "jsnum \<Rightarrow> jsnum" where
  "sinc x = (if js_eq x (Fin 0) then Fin 1 else js_div (Math_sin x) x)"

fun apply_func :: "func \<Rightarrow> jsnum \<Rightarrow> jsnum" where
  "apply_func Fabs a = Math_abs a"
| "apply_func Facos a = Math_acos a"
| "apply_func Fasin a = Math_asin a"
| "apply_func Fatan a = Math_atan a"
| "apply_func Fceil a = Math_ceil a"
| "apply_func Fcos a = Math_cos a"
| "apply_func Fexp a = Math_exp a"
| "apply_func Ffloor a = Math_floor a"
| "apply_func Flog a = Math_log a"
| "apply_func Fround a = Math_round a"
| "apply_func Fsin a = Math_sin a"
| "apply_func Fsinc a = sinc a"
| "apply_func Fsqrt a = Math_sqrt a"
| "apply_func Ftan a = Math_tan a"

text \<open>
  The call \<^verbatim>\<open>tree.value(a)\<close>: a function of the table is applied; a number is no function;
  a member of \<^verbatim>\<open>Object.prototype\<close> returns no number (or is no function).
\<close>

fun call_value :: "jsval \<Rightarrow> jsnum \<Rightarrow> error + jsnum" where
  "call_value (Callable f) a = Inr (apply_func f a)"
| "call_value (Number n) a = Inl (TypeError ''tree.value is not a function'')"
| "call_value (PrototypeMember name) a = Inl (NonNumeric name)"

definition unary :: "(jsnum \<Rightarrow> jsnum) \<Rightarrow> error + jsnum \<Rightarrow> error + jsnum" where
  "unary f l = (case l of Inl err \<Rightarrow> Inl err | Inr a \<Rightarrow> Inr (f a))"

definition binary ::
  "(jsnum \<Rightarrow> jsnum \<Rightarrow> jsnum) \<Rightarrow> error + jsnum \<Rightarrow> error + jsnum \<Rightarrow> error + jsnum" where
  "binary f l r = (case l of Inl err \<Rightarrow> Inl err
     | Inr a \<Rightarrow> (case r of Inl err \<Rightarrow> Inl err | Inr b \<Rightarrow> Inr (f a b)))"

text \<open>
  \<^verbatim>\<open>evaluate_tree\<close>: \<^verbatim>\<open>undefined\<close> is refused first, then the switch on the type. The left
  operand is evaluated before the right one, and an error of either ends the evaluation.
\<close>

fun evaluate_tree :: "tree option \<Rightarrow> jsnum \<Rightarrow> jsnum \<Rightarrow> error + jsnum" where
  "evaluate_tree None x y = Inl (Thrown ''Error parsing input, probably invalid.'')"
| "evaluate_tree (Some (Value val)) x y =
     (case val of Number n \<Rightarrow> Inr n | _ \<Rightarrow> Inl (NonNumeric ''value''))"
| "evaluate_tree (Some (Variable name)) x y = Inr (if name = ''x'' then x else y)"
| "evaluate_tree (Some (Function func left)) x y =
     (case evaluate_tree left x y of Inl err \<Rightarrow> Inl err | Inr a \<Rightarrow> call_value func a)"
| "evaluate_tree (Some (OpU str left)) x y =
     (if str = ''+'' then evaluate_tree left x y
      else if str = ''-'' then unary js_neg (evaluate_tree left x y)
      else Inl (Thrown (''Internal error, unhandled node: op_u'' @ str @ '' undefined'')))"
| "evaluate_tree (Some (OpB str left right)) x y =
     (if str = ''+'' then binary js_add (evaluate_tree left x y) (evaluate_tree right x y)
      else if str = ''-'' then binary js_sub (evaluate_tree left x y) (evaluate_tree right x y)
      else if str = ''*'' then binary js_mul (evaluate_tree left x y) (evaluate_tree right x y)
      else if str = ''/'' then binary js_div (evaluate_tree left x y) (evaluate_tree right x y)
      else if str = ''^'' then binary Math_pow (evaluate_tree left x y) (evaluate_tree right x y)
      else Inl (Thrown (''Internal error, unhandled node: op_b'' @ str @ '' undefined'')))"

definition create_evaluator :: "tree option \<Rightarrow> jsnum \<Rightarrow> jsnum \<Rightarrow> error + jsnum" where
  "create_evaluator tree = (\<lambda>x y. evaluate_tree tree x y)"

text \<open>
  The use the source documents: \<^verbatim>\<open>tree = parse(input); func = create_evaluator(tree);
  func(x, y)\<close>.
\<close>

definition parse_and_evaluate :: "string \<Rightarrow> jsnum \<Rightarrow> jsnum \<Rightarrow> error + jsnum" where
  "parse_and_evaluate input x y =
     (case parse input of Inl err \<Rightarrow> Inl err | Inr tree \<Rightarrow> create_evaluator tree x y)"

section \<open>Notions the properties use\<close>

text \<open>
  An \<^verbatim>\<open>expression\<close> method that parses nothing and returns the binding power it was called
  with, as a literal: passed to \<open>nud\<close> or \<open>led\<close>, it shows the binding power they ask for.
\<close>

definition rbp_probe :: "int \<Rightarrow> state \<Rightarrow> parsed" where
  "rbp_probe rbp s = Inr (Some (Value (Number (Fin (of_int rbp)))), s)"

text \<open>A tree with no \<^verbatim>\<open>undefined\<close> in it: the root is defined, and so is every child.\<close>

fun fully_formed :: "tree option \<Rightarrow> bool" where
  "fully_formed None = False"
| "fully_formed (Some (Value val)) = True"
| "fully_formed (Some (Variable name)) = True"
| "fully_formed (Some (Function func left)) = fully_formed left"
| "fully_formed (Some (OpU str left)) = fully_formed left"
| "fully_formed (Some (OpB str left right)) = (fully_formed left \<and> fully_formed right)"

text \<open>
  A value that is a number and not negative: a finite number not below the positive zero,
  or positive infinity. The negative zero, negative infinity and not-a-number are not.
\<close>

fun non_negative :: "jsval \<Rightarrow> bool" where
  "non_negative (Number (Fin r)) = (0 \<le> r)"
| "non_negative (Number PosInf) = True"
| "non_negative _ = False"

text \<open>The number of tokens from the position of a state to the end.\<close>

definition remaining :: "state \<Rightarrow> nat" where
  "remaining s = length (tokens s) - i s"

text \<open>What \<open>expression\<close> may do to the state: the tokens stay, the position does not go back.\<close>

definition keeps_tokens :: "state \<Rightarrow> state \<Rightarrow> bool" where
  "keeps_tokens s s' = (tokens s' = tokens s \<and> i s \<le> i s')"

text \<open>A token that, if it is a value token, holds a non-negative number.\<close>

fun value_ok :: "token \<Rightarrow> bool" where
  "value_ok (ValueToken val) = non_negative val"
| "value_ok _ = True"

text \<open>
  An identifier as the symbol pattern matches it, and a rest of the input at which the
  match ends.
\<close>

fun is_identifier :: "string \<Rightarrow> bool" where
  "is_identifier [] = False"
| "is_identifier (c # cs) = (is_sym_start c \<and> list_all is_sym_char cs)"

definition ends_identifier :: "string \<Rightarrow> bool" where
  "ends_identifier rest = (case rest of [] \<Rightarrow> True | d # ds \<Rightarrow> \<not> is_sym_char d)"

text \<open>
  The classification of an identifier in the specification's words, to compare the
  tokenizer with: a variable if it is \<^verbatim>\<open>x\<close> or \<^verbatim>\<open>y\<close>, else a function if the function
  table has the name, else a literal if the constant table has it, else the error that
  names it. (The tables' names are those the object literals list.)
\<close>

definition classify_by_tables :: "token list \<Rightarrow> string \<Rightarrow> string \<Rightarrow> error + token list" where
  "classify_by_tables acc m rest =
     (if m = ''x'' \<or> m = ''y'' then lex_loop (acc @ [create_variable_token m]) rest
      else (case map_of function_table m of
              Some func \<Rightarrow> lex_loop (acc @ [create_function_token func]) rest
            | None \<Rightarrow>
           (case map_of constant_table m of
              Some con \<Rightarrow> lex_loop (acc @ [create_value_token con]) rest
            | None \<Rightarrow> Inl (Thrown (''unknown symbol '' @ m)))))"

section \<open>Evaluation of the definitions on concrete inputs\<close>

lemma to_number_small: "r \<le> 1000000 \<Longrightarrow> to_number r = Fin r"
  by (simp add: to_number_def)

lemmas lex_defs = to_number_small lex_scan_def create_operator_token_def reg_float_def reg_int_def reg_sym_def
  strip_minus_def is_digit_def create_value_token_def create_function_token_def
  create_variable_token_def parseInt_def parseFloat_def digits_value_def with_sign_def
  is_sym_start_def is_sym_char_def get_property_def function_table_def constant_table_def
  Object_prototype_def

lemmas parse_defs = parse_def create_parse_tree_def at_end_def token_def advance_def
  binds_tighter_def

lemmas eval_defs = parse_and_evaluate_def create_evaluator_def unary_def binary_def js_sub_def
  js_mul_def js_div_def Math_pow_def is_zero_def is_inf_def signed_zero_def signed_inf_def
  odd_integer_def Math_sin_def

section \<open>The parser always returns\<close>

text \<open>
  The counter that \<open>create_parse_tree\<close> starts with is never used up: every call of
  \<open>expression\<close> and every turn of its loop takes a token before it recurses.
\<close>

lemma nud_keeps_tokens:
  assumes e: "\<And>rbp s t s'. e rbp s = Inr (t, s') \<Longrightarrow> keeps_tokens s s'"
    and r: "nud e tk s = Inr (t, s')"
  shows "keeps_tokens s s'"
  using r by (cases tk) (auto split: sum.splits if_splits prod.splits simp: advance_def keeps_tokens_def dest!: e)

lemma led_keeps_tokens:
  assumes e: "\<And>rbp s t s'. e rbp s = Inr (t, s') \<Longrightarrow> keeps_tokens s s'"
    and r: "led e tk l s = Inr (t, s')"
  shows "keeps_tokens s s'"
  using r by (cases tk) (auto split: sum.splits if_splits prod.splits simp: advance_def keeps_tokens_def dest!: e)

lemma keeps_tokens_trans: "keeps_tokens a b \<Longrightarrow> keeps_tokens b c \<Longrightarrow> keeps_tokens a c"
  by (auto simp: keeps_tokens_def)

lemma keeps_tokens_advance: "keeps_tokens s (advance s)"
  by (simp add: keeps_tokens_def advance_def)

lemma expression_keeps_tokens:
  "(expression n rbp s = Inr (t, s') \<longrightarrow> keeps_tokens s s')
   \<and> (led_loop n rbp l s = Inr (t, s') \<longrightarrow> keeps_tokens s s')"
proof (induction n arbitrary: rbp s t s' l)
  case 0
  show ?case by simp
next
  case (Suc n)
  have e: "\<And>rbp s t s'. expression n rbp s = Inr (t, s') \<Longrightarrow> keeps_tokens s s'"
    using Suc by blast
  have w: "\<And>rbp l s t s'. led_loop n rbp l s = Inr (t, s') \<Longrightarrow> keeps_tokens s s'"
    using Suc by blast
  have 1: "keeps_tokens s s'" if "expression (Suc n) rbp s = Inr (t, s')"
  proof (cases "at_end s")
    case True
    with that show ?thesis by (simp add: keeps_tokens_def)
  next
    case False
    with that obtain left s1 where n1: "nud (expression n) (token s) (advance s) = Inr (left, s1)"
      and l1: "led_loop n rbp left s1 = Inr (t, s')"
      by (auto split: sum.splits)
    from nud_keeps_tokens[OF e n1] have "keeps_tokens (advance s) s1" .
    with keeps_tokens_advance w[OF l1] show ?thesis
      by (blast intro: keeps_tokens_trans)
  qed
  have 2: "keeps_tokens s s'" if "led_loop (Suc n) rbp l s = Inr (t, s')"
  proof (cases "binds_tighter rbp (lbp (token s))")
    case False
    with that show ?thesis by (simp add: keeps_tokens_def)
  next
    case True
    with that obtain left s1 where n1: "led (expression n) (token s) l (advance s) = Inr (left, s1)"
      and l1: "led_loop n rbp left s1 = Inr (t, s')"
      by (auto split: sum.splits)
    from led_keeps_tokens[OF e n1] have "keeps_tokens (advance s) s1" .
    with keeps_tokens_advance w[OF l1] show ?thesis
      by (blast intro: keeps_tokens_trans)
  qed
  from 1 2 show ?case by blast
qed

lemma keeps_tokens_remaining: "keeps_tokens s s' \<Longrightarrow> remaining s' \<le> remaining s"
  by (auto simp: keeps_tokens_def remaining_def)

lemma remaining_advance: "\<not> at_end s \<Longrightarrow> remaining (advance s) < remaining s"
  by (auto simp: at_end_def remaining_def advance_def)

lemma nud_fuel:
  assumes e: "\<And>rbp s. remaining s < n \<Longrightarrow> e rbp s \<noteq> Inl OutOfFuel"
    and r: "remaining s < n"
  shows "nud e tk s \<noteq> Inl OutOfFuel"
  using e[OF r] by (cases tk) (auto split: sum.splits if_splits prod.splits)

lemma led_fuel:
  assumes e: "\<And>rbp s. remaining s < n \<Longrightarrow> e rbp s \<noteq> Inl OutOfFuel"
    and r: "remaining s < n"
  shows "led e tk l s \<noteq> Inl OutOfFuel"
  using e[OF r] by (cases tk) (auto split: sum.splits if_splits prod.splits)

lemma at_end_token: "at_end s \<Longrightarrow> token s = EndToken"
  by (simp add: token_def)

lemma expression_fuel:
  "remaining s < n \<Longrightarrow> expression n rbp s \<noteq> Inl OutOfFuel \<and> led_loop n rbp l s \<noteq> Inl OutOfFuel"
proof (induction n arbitrary: rbp s l)
  case 0
  then show ?case by simp
next
  case (Suc n)
  have e: "\<And>rbp s. remaining s < n \<Longrightarrow> expression n rbp s \<noteq> Inl OutOfFuel"
    using Suc.IH by blast
  have w: "\<And>rbp l s. remaining s < n \<Longrightarrow> led_loop n rbp l s \<noteq> Inl OutOfFuel"
    using Suc.IH by blast
  have 1: "expression (Suc n) rbp s \<noteq> Inl OutOfFuel"
  proof (cases "at_end s")
    case True
    then show ?thesis by simp
  next
    case False
    then have a: "remaining (advance s) < n"
      using remaining_advance[of s] Suc.prems by simp
    show ?thesis
    proof (cases "nud (expression n) (token s) (advance s)")
      case (Inl err)
      with nud_fuel[where e="expression n" and tk="token s", OF e a] False show ?thesis by auto
    next
      case (Inr p)
      obtain left s1 where p: "p = (left, s1)" by (cases p)
      have "keeps_tokens (advance s) s1"
        using nud_keeps_tokens[of "expression n" "token s" "advance s" left s1] expression_keeps_tokens Inr p by blast
      then have "remaining s1 < n" using a keeps_tokens_remaining by fastforce
      with w Inr p False show ?thesis by simp
    qed
  qed
  have 2: "led_loop (Suc n) rbp l s \<noteq> Inl OutOfFuel"
  proof (cases "binds_tighter rbp (lbp (token s))")
    case False
    then show ?thesis by simp
  next
    case bt: True
    show ?thesis
    proof (cases "at_end s")
      case True
      with bt show ?thesis by (simp add: at_end_token)
    next
      case False
      then have a: "remaining (advance s) < n"
        using remaining_advance[of s] Suc.prems by simp
      show ?thesis
      proof (cases "led (expression n) (token s) l (advance s)")
        case (Inl err)
        with led_fuel[where e="expression n" and tk="token s" and l=l, OF e a] bt show ?thesis by auto
      next
        case (Inr p)
        obtain left s1 where p: "p = (left, s1)" by (cases p)
        have "keeps_tokens (advance s) s1"
          using led_keeps_tokens[of "expression n" "token s" l "advance s" left s1] expression_keeps_tokens Inr p by blast
        then have "remaining s1 < n" using a keeps_tokens_remaining by fastforce
        with w Inr p bt show ?thesis by simp
      qed
    qed
  qed
  from 1 2 show ?case by blast
qed

lemma create_parse_tree_fuel: "create_parse_tree toks \<noteq> Inl OutOfFuel"
proof -
  have "remaining \<lparr>tokens = toks, i = 0\<rparr> < Suc (length toks)" by (simp add: remaining_def)
  from expression_fuel[OF this, of 0 None] show ?thesis
    by (auto simp: create_parse_tree_def split: sum.splits)
qed

lemma lex_loop_fuel: "lex_loop acc str \<noteq> Inl OutOfFuel"
  by (induction acc str rule: lex_loop.induct) (auto split: option.splits)

lemma parse_never_out_of_fuel: "parse input \<noteq> Inl OutOfFuel"
  using lex_loop_fuel create_parse_tree_fuel by (auto simp: parse_def lex_scan_def split: sum.splits)

section \<open>What the tokenizer emits, and what evaluation does with a gap\<close>

lemma evaluate_tree_incomplete: "\<not> fully_formed t \<Longrightarrow> isl (evaluate_tree t x y)"
  by (induction t rule: fully_formed.induct) (auto simp: unary_def binary_def split: sum.splits)

lemma not_digit_dot: "\<not> is_digit (CHR ''.'')" "\<not> is_digit (CHR ''-'')"
  by (simp_all add: is_digit_def)

lemma takeWhile_digits_dot:
  "takeWhile is_digit (takeWhile is_digit xs @ CHR ''.'' # ys) = takeWhile is_digit xs"
  by (induction xs) (auto simp: not_digit_dot)

lemma dropWhile_digits_dot:
  "dropWhile is_digit (takeWhile is_digit xs @ CHR ''.'' # ys) = CHR ''.'' # ys"
  by (induction xs) (auto simp: not_digit_dot)

lemma strip_minus_other: "c \<noteq> CHR ''-'' \<Longrightarrow> strip_minus (c # cs) = ([], c # cs)"
  by (simp add: strip_minus_def)

lemma strip_minus_digits:
  "takeWhile is_digit xs \<noteq> [] \<Longrightarrow> strip_minus (takeWhile is_digit xs @ ys) = ([], takeWhile is_digit xs @ ys)"
  by (cases xs) (auto simp: strip_minus_def not_digit_dot split: if_splits)

lemma with_sign_plus: "with_sign [] r = to_number r"
  by (simp add: with_sign_def)

lemma to_number_non_negative: "0 \<le> r \<Longrightarrow> non_negative (Number (to_number r))"
  by (simp add: to_number_def)

lemma reg_float_value:
  assumes "reg_float (c # cs) = Some m" and "c \<noteq> CHR ''-''"
  shows "non_negative (Number (parseFloat m))"
proof -
  let ?ds = "takeWhile is_digit (c # cs)"
  from assms obtain r2 where dw: "dropWhile is_digit (c # cs) = CHR ''.'' # r2"
    and m: "m = ?ds @ CHR ''.'' # takeWhile is_digit r2"
    and ne: "?ds \<noteq> [] \<or> takeWhile is_digit r2 \<noteq> []"
    by (auto simp: reg_float_def strip_minus_other Let_def split: list.splits if_splits)
  have sm: "strip_minus m = ([], m)"
  proof (cases "?ds = []")
    case True
    then show ?thesis using m by (simp add: strip_minus_def)
  next
    case False
    then show ?thesis unfolding m by (rule strip_minus_digits)
  qed
  have "parseFloat m = to_number (real (digits_value ?ds)
      + real (digits_value (takeWhile is_digit r2)) / 10 ^ length (takeWhile is_digit r2))"
    using ne unfolding parseFloat_def sm
    by (auto simp add: m takeWhile_digits_dot dropWhile_digits_dot with_sign_plus Let_def
        simp del: takeWhile.simps dropWhile.simps)
  then show ?thesis by (simp add: to_number_non_negative)
qed

lemma reg_int_value:
  assumes "reg_int (c # cs) = Some m" and "c \<noteq> CHR ''-''"
  shows "non_negative (Number (parseInt m))"
proof -
  let ?ds = "takeWhile is_digit (c # cs)"
  from assms have m: "m = ?ds" and ne: "?ds \<noteq> []"
    by (auto simp: reg_int_def strip_minus_other Let_def split: if_splits)
  have sm: "strip_minus m = ([], m)"
    using strip_minus_digits[OF ne, of "[]"] m by simp
  have "parseInt m = to_number (real (digits_value ?ds))"
    using ne unfolding parseInt_def sm
    by (simp add: m with_sign_plus del: takeWhile.simps)
  then show ?thesis by (simp add: to_number_non_negative)
qed

lemma constant_non_negative:
  "get_property function_table m = None \<Longrightarrow> get_property constant_table m = Some con \<Longrightarrow> non_negative con"
  by (auto simp: get_property_def constant_table_def Math_E_def Math_PI_def split: option.splits if_splits)

lemma lex_loop_values:
  "list_all value_ok acc \<Longrightarrow> lex_loop acc str = Inr toks \<Longrightarrow> list_all value_ok toks"
proof (induction acc str rule: lex_loop.induct)
  case (1 tokens)
  then show ?case by simp
next
  case (2 tokens c cs)
  let ?single = "c = CHR ''+'' \<or> c = CHR ''-'' \<or> c = CHR ''*'' \<or> c = CHR ''/'' \<or> c = CHR ''^''
    \<or> c = CHR '')'' \<or> c = CHR ''('' \<or> c = CHR '' '' \<or> c = CHR 0x09 \<or> c = CHR 0x0D \<or> c = CHR 0x0A"
  show ?case
  proof (cases ?single)
    case True
    with "2.prems" "2.IH"(1-6) show ?thesis
      by (auto simp: create_operator_token_def split: if_splits)
  next
    case False
    then have nm: "c \<noteq> CHR ''-''" by simp
    show ?thesis
    proof (cases "reg_float (c # cs)")
      case (Some m)
      from reg_float_value[OF Some nm] have ok: "value_ok (create_value_token (Number (parseFloat m)))"
        by (auto simp: create_value_token_def)
      from False Some "2.prems"(2)
      have "lex_loop (tokens @ [create_value_token (Number (parseFloat m))]) (drop (length m) (c # cs)) = Inr toks"
        by simp
      moreover have "list_all value_ok (tokens @ [create_value_token (Number (parseFloat m))])"
        using ok "2.prems"(1) by simp
      ultimately show ?thesis using "2.IH"(11)[of m] False Some by simp
    next
      case None
      note nf = None
      show ?thesis
      proof (cases "reg_int (c # cs)")
        case (Some m)
        from reg_int_value[OF Some nm] have ok: "value_ok (create_value_token (Number (parseInt m)))"
          by (auto simp: create_value_token_def)
        from False nf Some "2.prems"(2)
        have "lex_loop (tokens @ [create_value_token (Number (parseInt m))]) (drop (length m) (c # cs)) = Inr toks"
          by simp
        moreover have "list_all value_ok (tokens @ [create_value_token (Number (parseInt m))])"
          using ok "2.prems"(1) by simp
        ultimately show ?thesis using "2.IH"(10)[of m] False nf Some by simp
      next
        case None
        note ni = None
        show ?thesis
        proof (cases "reg_sym (c # cs)")
          case None
          with False nf ni "2.prems"(2) show ?thesis by simp
        next
          case (Some m)
          show ?thesis
          proof (cases "m = ''x'' \<or> m = ''y''")
            case True
            with False nf ni Some "2.prems"(2)
            have "lex_loop (tokens @ [create_variable_token m]) (drop (length m) (c # cs)) = Inr toks"
              by auto
            moreover have "list_all value_ok (tokens @ [create_variable_token m])"
              using "2.prems"(1) by (simp add: create_variable_token_def)
            ultimately show ?thesis using "2.IH"(7)[of m] False nf ni Some True by simp
          next
            case nv: False
            show ?thesis
            proof (cases "get_property function_table m")
              case (Some func)
              with False nf ni \<open>reg_sym (c # cs) = Some m\<close> nv "2.prems"(2)
              have "lex_loop (tokens @ [create_function_token func]) (drop (length m) (c # cs)) = Inr toks"
                by simp
              moreover have "list_all value_ok (tokens @ [create_function_token func])"
                using "2.prems"(1) by (simp add: create_function_token_def)
              ultimately show ?thesis
                using "2.IH"(9)[of m func] False nf ni \<open>reg_sym (c # cs) = Some m\<close> nv Some by simp
            next
              case None
              note nfn = None
              show ?thesis
              proof (cases "get_property constant_table m")
                case None
                with False nf ni \<open>reg_sym (c # cs) = Some m\<close> nv nfn "2.prems"(2) show ?thesis by simp
              next
                case (Some con)
                with False nf ni \<open>reg_sym (c # cs) = Some m\<close> nv nfn "2.prems"(2)
                have "lex_loop (tokens @ [create_value_token con]) (drop (length m) (c # cs)) = Inr toks"
                  by simp
                moreover have "list_all value_ok (tokens @ [create_value_token con])"
                  using "2.prems"(1) constant_non_negative[OF nfn Some] by (simp add: create_value_token_def)
                ultimately show ?thesis
                  using "2.IH"(8)[of m con] False nf ni \<open>reg_sym (c # cs) = Some m\<close> nv nfn Some by simp
              qed
            qed
          qed
        qed
      qed
    qed
  qed
qed

text \<open>
  An incomplete tree comes out of \<open>expression\<close> only when all tokens are consumed: the
  operand is missing at the end of the input.
\<close>

lemma nud_incomplete:
  assumes e: "\<And>rbp s t s'. e rbp s = Inr (t, s') \<Longrightarrow> \<not> fully_formed t \<Longrightarrow> at_end s'"
    and r: "nud e tk s = Inr (t, s')" and nf: "\<not> fully_formed t"
  shows "at_end s'"
proof (cases tk)
  case LParen
  with r obtain t1 s1 where e1: "e 0 s = Inr (t1, s1)" and ty: "ttype (token s1) = Some '')''"
    and t: "t = t1" and s': "s' = advance s1"
    by (auto split: sum.splits if_splits)
  from e1 nf t have "at_end s1" by (auto dest: e)
  with ty show ?thesis by (simp add: at_end_token)
qed (use r nf in \<open>auto split: sum.splits if_splits dest: e\<close>)

lemma led_incomplete:
  assumes e: "\<And>rbp s t s'. e rbp s = Inr (t, s') \<Longrightarrow> \<not> fully_formed t \<Longrightarrow> at_end s'"
    and r: "led e tk l s = Inr (t, s')" and l: "fully_formed l" and nf: "\<not> fully_formed t"
  shows "at_end s'"
  using r l nf by (cases tk) (auto split: sum.splits if_splits dest: e)

lemma expression_incomplete:
  "(expression n rbp s = Inr (t, s') \<longrightarrow> \<not> fully_formed t \<longrightarrow> at_end s')
   \<and> (led_loop n rbp l s = Inr (t, s') \<longrightarrow> (\<not> fully_formed l \<longrightarrow> at_end s)
        \<longrightarrow> \<not> fully_formed t \<longrightarrow> at_end s')"
proof (induction n arbitrary: rbp s t s' l)
  case 0
  show ?case by simp
next
  case (Suc n)
  have e: "\<And>rbp s t s'. expression n rbp s = Inr (t, s') \<Longrightarrow> \<not> fully_formed t \<Longrightarrow> at_end s'"
    using Suc by blast
  have w: "\<And>rbp l s t s'. led_loop n rbp l s = Inr (t, s') \<Longrightarrow> (\<not> fully_formed l \<longrightarrow> at_end s)
      \<Longrightarrow> \<not> fully_formed t \<Longrightarrow> at_end s'"
    using Suc by blast
  have 1: "at_end s'" if r: "expression (Suc n) rbp s = Inr (t, s')" and nf: "\<not> fully_formed t"
  proof (cases "at_end s")
    case True
    with r show ?thesis by simp
  next
    case False
    with r obtain left s1 where n1: "nud (expression n) (token s) (advance s) = Inr (left, s1)"
      and l1: "led_loop n rbp left s1 = Inr (t, s')"
      by (auto split: sum.splits)
    have "\<not> fully_formed left \<longrightarrow> at_end s1"
      using nud_incomplete[where e = "expression n", OF _ n1] e by blast
    from w[OF l1 this nf] show ?thesis .
  qed
  have 2: "at_end s'" if r: "led_loop (Suc n) rbp l s = Inr (t, s')"
    and inv: "\<not> fully_formed l \<longrightarrow> at_end s" and nf: "\<not> fully_formed t"
  proof (cases "binds_tighter rbp (lbp (token s))")
    case False
    with r inv nf show ?thesis by auto
  next
    case True
    with r obtain left s1 where n1: "led (expression n) (token s) l (advance s) = Inr (left, s1)"
      and l1: "led_loop n rbp left s1 = Inr (t, s')"
      by (auto split: sum.splits)
    have fl: "fully_formed l"
    proof (rule ccontr)
      assume "\<not> fully_formed l"
      with inv have "token s = EndToken" by (simp add: at_end_token)
      with n1 show False by simp
    qed
    have "\<not> fully_formed left \<longrightarrow> at_end s1"
      using led_incomplete[where e = "expression n", OF _ n1 fl] e by blast
    from w[OF l1 this nf] show ?thesis .
  qed
  from 1 2 show ?case by blast
qed

section \<open>Missing operands\<close>

text \<open>
  C1, as amended. For every input \<^verbatim>\<open>parse\<close> returns: it throws, or it gives back what
  \<^verbatim>\<open>expression(0)\<close> gave, which is \<^verbatim>\<open>undefined\<close> or a tree. It does not report an operand
  that is missing at the end of the input: \<^verbatim>\<open>parse("")\<close> is \<^verbatim>\<open>undefined\<close>,
  \<^verbatim>\<open>parse("2+")\<close> is the \<^verbatim>\<open>+\<close> node with no right child and \<^verbatim>\<open>parse("-")\<close> the unary
  \<^verbatim>\<open>-\<close> node with no child. An incomplete result arises only there (all tokens are
  consumed), and it is \<^verbatim>\<open>evaluate_tree\<close> that reports it: evaluating \<^verbatim>\<open>undefined\<close> or a
  tree with an \<^verbatim>\<open>undefined\<close> child never returns a number, and for these inputs throws
  \<^verbatim>\<open>"Error parsing input, probably invalid."\<close>.
\<close>

theorem missing_operand_reported_by_evaluation:
  "parse input \<noteq> Inl OutOfFuel
   \<and> parse [] = Inr None
   \<and> parse ''2+'' = Inr (Some (OpB ''+'' (Some (Value (Number (Fin 2)))) None))
   \<and> parse ''-'' = Inr (Some (OpU ''-'' None))
   \<and> (expression n rbp s = Inr (tree, s') \<and> \<not> fully_formed tree \<longrightarrow> at_end s')
   \<and> (\<not> fully_formed tree \<longrightarrow> isl (evaluate_tree tree x y))
   \<and> parse_and_evaluate [] x y = Inl (Thrown ''Error parsing input, probably invalid.'')
   \<and> parse_and_evaluate ''2+'' x y = Inl (Thrown ''Error parsing input, probably invalid.'')
   \<and> parse_and_evaluate ''-'' x y = Inl (Thrown ''Error parsing input, probably invalid.'')"
proof -
  have "parse [] = Inr None"
    by (simp add: lex_defs parse_defs)
  moreover have "parse ''2+'' = Inr (Some (OpB ''+'' (Some (Value (Number (Fin 2)))) None))"
    by (simp add: lex_defs parse_defs)
  moreover have "parse ''-'' = Inr (Some (OpU ''-'' None))"
    by (simp add: lex_defs parse_defs)
  moreover have "expression n rbp s = Inr (tree, s') \<and> \<not> fully_formed tree \<longrightarrow> at_end s'"
    using expression_incomplete by blast
  moreover have "\<not> fully_formed tree \<longrightarrow> isl (evaluate_tree tree x y)"
    by (simp add: evaluate_tree_incomplete)
  moreover have
    "parse_and_evaluate [] x y = Inl (Thrown ''Error parsing input, probably invalid.'')"
    "parse_and_evaluate ''2+'' x y = Inl (Thrown ''Error parsing input, probably invalid.'')"
    "parse_and_evaluate ''-'' x y = Inl (Thrown ''Error parsing input, probably invalid.'')"
    by (simp_all add: lex_defs parse_defs eval_defs)
  ultimately show ?thesis
    using parse_never_out_of_fuel by blast
qed

theorem missing_operand_witness:
  "expression (Suc (Suc (Suc 0))) 0
     \<lparr>tokens = [create_value_token (Number (Fin 2)), create_operator_token ''+'' 50 0 1],
      i = 0\<rparr>
     = Inr (Some (OpB ''+'' (Some (Value (Number (Fin 2)))) None),
        \<lparr>tokens = [create_value_token (Number (Fin 2)), create_operator_token ''+'' 50 0 1],
         i = 2\<rparr>)
   \<and> \<not> fully_formed (Some (OpB ''+'' (Some (Value (Number (Fin 2)))) None))
   \<and> at_end
       \<lparr>tokens = [create_value_token (Number (Fin 2)), create_operator_token ''+'' 50 0 1],
        i = 2\<rparr>
   \<and> isl (evaluate_tree (Some (OpB ''+'' (Some (Value (Number (Fin 2)))) None))
       (Fin 0) (Fin 0))"
  using missing_operand_reported_by_evaluation
    [of "''2+''" "Suc (Suc (Suc 0))" 0
      "\<lparr>tokens = [create_value_token (Number (Fin 2)), create_operator_token ''+'' 50 0 1],
        i = 0\<rparr>"
      "Some (OpB ''+'' (Some (Value (Number (Fin 2)))) None)"
      "\<lparr>tokens = [create_value_token (Number (Fin 2)), create_operator_token ''+'' 50 0 1],
        i = 2\<rparr>"
      "Fin 0" "Fin 0"]
  by (simp add: create_value_token_def create_operator_token_def parse_defs)

text \<open>
  The claim as stated fails: \<^verbatim>\<open>parse("2+")\<close> throws nothing and returns a tree whose \<^verbatim>\<open>+\<close>
  node has no right child.
\<close>

theorem incomplete_tree_returned:
  "parse ''2+'' = Inr (Some (OpB ''+'' (Some (Value (Number (Fin 2)))) None))
   \<and> \<not> fully_formed (Some (OpB ''+'' (Some (Value (Number (Fin 2)))) None))
   \<and> \<not> isl (parse ''2+'')"
  by (simp add: lex_defs parse_defs)

section \<open>Literals\<close>

lemma digits_value_zeros:
  "foldl (\<lambda>a c. 10 * a + (of_char c - 48)) (a::nat) (replicate n (CHR ''0'')) = a * 10 ^ n"
  by (induction n arbitrary: a) auto

lemma digits_value_one_zeros: "digits_value (CHR ''1'' # replicate n (CHR ''0'')) = 10 ^ n"
  by (simp add: digits_value_def digits_value_zeros)

lemma parseInt_one_zeros:
  "parseInt (CHR ''1'' # replicate n (CHR ''0'')) = to_number (10 ^ n)"
  by (simp add: parseInt_def strip_minus_def is_digit_def with_sign_def takeWhile_replicate
      digits_value_one_zeros del: replicate.simps)

lemma reg_float_one_zeros: "reg_float (CHR ''1'' # replicate n (CHR ''0'')) = None"
  by (simp add: reg_float_def strip_minus_def is_digit_def takeWhile_replicate
      dropWhile_replicate del: replicate.simps)

lemma reg_int_one_zeros:
  "reg_int (CHR ''1'' # replicate n (CHR ''0'')) = Some (CHR ''1'' # replicate n (CHR ''0''))"
  by (simp add: reg_int_def strip_minus_def is_digit_def takeWhile_replicate
      del: replicate.simps)

text \<open>
  C10. Every value token the tokenizer emits holds a non-negative number (a finite one, or
  positive infinity for a numeral beyond the finite range, such as 1 followed by 400
  zeros): the switch takes a \<^verbatim>\<open>-\<close> as an operator before the number patterns are tried,
  so their optional minus sign never matches (alone, the integer pattern does match
  \<^verbatim>\<open>-2\<close>, and \<^verbatim>\<open>parseInt\<close> gives -2 for it). \<^verbatim>\<open>-2\<close> is the unary minus applied to the
  literal 2.
\<close>

theorem literal_values_non_negative:
  "(lex_scan input = Inr toks \<and> ValueToken val \<in> set toks \<longrightarrow> non_negative val)
   \<and> lex_scan ''-2'' = Inr [create_operator_token ''-'' 50 0 1, create_value_token (Number (Fin 2))]
   \<and> parse ''-2'' = Inr (Some (OpU ''-'' (Some (Value (Number (Fin 2))))))
   \<and> reg_int ''-2'' = Some ''-2''
   \<and> parseInt ''-2'' = Fin (- 2)
   \<and> lex_scan (CHR ''1'' # replicate 400 (CHR ''0'')) = Inr [create_value_token (Number PosInf)]"
proof -
  have "non_negative val" if "lex_scan input = Inr toks" and "ValueToken val \<in> set toks"
  proof -
    from that(1) have "list_all value_ok toks"
      using lex_loop_values[of "[]" input toks] by (simp add: lex_scan_def)
    with that(2) have "value_ok (ValueToken val)"
      by (auto simp: list_all_iff)
    then show ?thesis by simp
  qed
  moreover have
    "lex_scan ''-2'' = Inr [create_operator_token ''-'' 50 0 1, create_value_token (Number (Fin 2))]"
    "parse ''-2'' = Inr (Some (OpU ''-'' (Some (Value (Number (Fin 2))))))"
    "reg_int ''-2'' = Some ''-2''"
    "parseInt ''-2'' = Fin (- 2)"
    by (simp_all add: lex_defs parse_defs)
  moreover have
    "lex_scan (CHR ''1'' # replicate 400 (CHR ''0'')) = Inr [create_value_token (Number PosInf)]"
    by (simp add: lex_scan_def reg_float_one_zeros reg_int_one_zeros parseInt_one_zeros
        to_number_def)
  ultimately show ?thesis by blast
qed

theorem literal_values_witness:
  "lex_scan ''3-2.5'' =
     Inr [create_value_token (Number (Fin 3)), create_operator_token ''-'' 50 0 1,
          create_value_token (Number (Fin (5 / 2)))]
   \<and> ValueToken (Number (Fin (5 / 2))) \<in>
       set [create_value_token (Number (Fin 3)), create_operator_token ''-'' 50 0 1,
            create_value_token (Number (Fin (5 / 2)))]
   \<and> non_negative (Number (Fin (5 / 2)))"
  using literal_values_non_negative
    [of "''3-2.5''"
      "[create_value_token (Number (Fin 3)), create_operator_token ''-'' 50 0 1,
        create_value_token (Number (Fin (5 / 2)))]"
      "Number (Fin (5 / 2))"]
  by (simp add: lex_defs)

section \<open>Parentheses\<close>

text \<open>
  C2. A left parenthesis whose sub-expression runs to the end of the input is rejected:
  \<^verbatim>\<open>parse("(2+3")\<close> throws \<^verbatim>\<open>"Unmatched left parenthesis."\<close>. A right parenthesis with no
  left one is not rejected when it follows a complete expression: it has binding power 0,
  so it ends \<^verbatim>\<open>expression(0)\<close> like the end of the input does, and \<^verbatim>\<open>create_parse_tree\<close>
  returns without looking at the tokens that are left. \<^verbatim>\<open>parse("2+3)")\<close> throws nothing
  and returns the tree of \<^verbatim>\<open>2+3\<close>; whatever follows the parenthesis is dropped, so
  \<^verbatim>\<open>2+3)*100\<close> evaluates to 5.
\<close>

theorem unmatched_parentheses:
  "parse ''(2+3'' = Inl (Thrown ''Unmatched left parenthesis.'')
   \<and> parse ''2+3)'' =
       Inr (Some (OpB ''+'' (Some (Value (Number (Fin 2)))) (Some (Value (Number (Fin 3))))))
   \<and> \<not> isl (parse ''2+3)'')
   \<and> parse ''2+3)'' = parse ''2+3''
   \<and> parse_and_evaluate ''2+3)*100'' x y = Inr (Fin 5)"
  by (simp add: lex_defs parse_defs eval_defs)

section \<open>Binding powers and associativity\<close>

text \<open>
  C3, as amended. The \<^verbatim>\<open>led\<close> of an operator token parses its right operand with
  \<^verbatim>\<open>s.expression(bp - right_assoc, s)\<close>: the operator's own binding power when it is
  left-associative (\<^verbatim>\<open>right_assoc\<close> is 0) and its binding power minus 1 when it is
  right-associative (\<^verbatim>\<open>right_assoc\<close> is 1). The tokenizer makes \<^verbatim>\<open>+ - * /\<close>
  left-associative and \<^verbatim>\<open>^\<close> right-associative.
\<close>

theorem led_right_operand_binding_power:
  "led e (create_operator_token str bp 0 also_unary) left s =
     (case e bp s of Inl err \<Rightarrow> Inl err
      | Inr (right, s') \<Rightarrow> Inr (Some (OpB str left right), s'))
   \<and> led e (create_operator_token str bp 1 also_unary) left s =
     (case e (bp - 1) s of Inl err \<Rightarrow> Inl err
      | Inr (right, s') \<Rightarrow> Inr (Some (OpB str left right), s'))
   \<and> lex_scan ''+-*/^'' =
       Inr [create_operator_token ''+'' 50 0 1, create_operator_token ''-'' 50 0 1,
            create_operator_token ''*'' 60 0 0, create_operator_token ''/'' 60 0 0,
            create_operator_token ''^'' 75 1 0]"
  by (simp add: lex_defs)

text \<open>
  The claim as stated fails: the left-associative \<^verbatim>\<open>-\<close> (binding power 50) asks for its
  right operand at 50, not at 49, and the right-associative \<^verbatim>\<open>^\<close> (75) asks at 74, not 75.
\<close>

theorem led_binding_power_not_as_claimed:
  "led rbp_probe (create_operator_token ''-'' 50 0 1) None \<lparr>tokens = [], i = 0\<rparr>
     = Inr (Some (OpB ''-'' None (Some (Value (Number (Fin 50))))), \<lparr>tokens = [], i = 0\<rparr>)
   \<and> led rbp_probe (create_operator_token ''-'' 50 0 1) None \<lparr>tokens = [], i = 0\<rparr>
     \<noteq> Inr (Some (OpB ''-'' None (Some (Value (Number (Fin 49))))), \<lparr>tokens = [], i = 0\<rparr>)
   \<and> led rbp_probe (create_operator_token ''^'' 75 1 0) None \<lparr>tokens = [], i = 0\<rparr>
     = Inr (Some (OpB ''^'' None (Some (Value (Number (Fin 74))))), \<lparr>tokens = [], i = 0\<rparr>)
   \<and> led rbp_probe (create_operator_token ''^'' 75 1 0) None \<lparr>tokens = [], i = 0\<rparr>
     \<noteq> Inr (Some (OpB ''^'' None (Some (Value (Number (Fin 75))))), \<lparr>tokens = [], i = 0\<rparr>)"
  by (simp add: create_operator_token_def rbp_probe_def)

text \<open>
  C4, as amended. Chains of one precedence group by associativity: \<^verbatim>\<open>parse("2-3-4")\<close> is
  the tree of \<^verbatim>\<open>(2-3)-4\<close> and evaluates to -5 at any bindings (the value of \<^verbatim>\<open>(2-3)-4\<close>
  is -5, not -3); \<^verbatim>\<open>parse("2^3^2")\<close> is the tree of \<^verbatim>\<open>2^(3^2)\<close> and evaluates to 512.
\<close>

theorem chains_group_by_associativity:
  "parse ''2-3-4'' =
     Inr (Some (OpB ''-''
       (Some (OpB ''-'' (Some (Value (Number (Fin 2)))) (Some (Value (Number (Fin 3))))))
       (Some (Value (Number (Fin 4))))))
   \<and> parse_and_evaluate ''2-3-4'' x y = Inr (Fin (- 5))
   \<and> parse ''2^3^2'' =
     Inr (Some (OpB ''^'' (Some (Value (Number (Fin 2))))
       (Some (OpB ''^'' (Some (Value (Number (Fin 3)))) (Some (Value (Number (Fin 2))))))))
   \<and> parse_and_evaluate ''2^3^2'' x y = Inr (Fin 512)"
  by (simp add: lex_defs parse_defs eval_defs)

text \<open>The claim as stated fails: the value of \<^verbatim>\<open>parse("2-3-4")\<close> is not -3.\<close>

theorem subtraction_chain_is_not_minus_three:
  "parse_and_evaluate ''2-3-4'' (Fin 0) (Fin 0) \<noteq> Inr (Fin (- 3))"
  by (simp add: lex_defs parse_defs eval_defs)

text \<open>
  C5. A prefix operator and a function parse their operand with \<^verbatim>\<open>s.expression(70, s)\<close>;
  70 lies between the binding power of \<^verbatim>\<open>*\<close> (60) and that of \<^verbatim>\<open>^\<close> (75). So
  \<^verbatim>\<open>parse("-2^2")\<close> evaluates to -4 and \<^verbatim>\<open>parse("sin 0+5")\<close> to 5, at any bindings.
\<close>

theorem prefix_operand_binding_power:
  "nud e (create_operator_token str bp right_assoc 1) s =
     (case e 70 s of Inl err \<Rightarrow> Inl err
      | Inr (left, s') \<Rightarrow> Inr (Some (OpU str left), s'))
   \<and> nud e (create_function_token func) s =
     (case e 70 s of Inl err \<Rightarrow> Inl err
      | Inr (left, s') \<Rightarrow> Inr (Some (Function func left), s'))
   \<and> lbp (create_operator_token ''*'' 60 0 0) = Some 60
   \<and> lbp (create_operator_token ''^'' 75 1 0) = Some 75
   \<and> binds_tighter 70 (lbp (create_operator_token ''^'' 75 1 0))
   \<and> \<not> binds_tighter 70 (lbp (create_operator_token ''*'' 60 0 0))
   \<and> \<not> binds_tighter 70 (lbp (create_operator_token ''+'' 50 0 1))
   \<and> parse_and_evaluate ''-2^2'' x y = Inr (Fin (- 4))
   \<and> parse_and_evaluate ''sin 0+5'' x y = Inr (Fin 5)"
  by (simp add: lex_defs parse_defs eval_defs)


section \<open>Arithmetic at the edges\<close>

text \<open>
  C8. The evaluator hands the operands to the host's division and power with no check of
  its own: \<^verbatim>\<open>parse("1/0")\<close> evaluates to positive infinity, not to an error, and
  \<^verbatim>\<open>parse("0^0")\<close> evaluates to 1.
\<close>

theorem division_by_zero_and_zero_power:
  "parse_and_evaluate ''1/0'' x y = Inr PosInf
   \<and> parse_and_evaluate ''0^0'' x y = Inr (Fin 1)
   \<and> evaluate_tree (Some (OpB ''/'' left right)) x y =
       binary js_div (evaluate_tree left x y) (evaluate_tree right x y)
   \<and> evaluate_tree (Some (OpB ''^'' left right)) x y =
       binary Math_pow (evaluate_tree left x y) (evaluate_tree right x y)"
  by (simp add: lex_defs parse_defs eval_defs)

section \<open>Identifiers\<close>

lemma sym_start_other:
  assumes "is_sym_start c"
  shows "\<not> is_digit c" "c \<noteq> CHR ''.''" "c \<noteq> CHR ''-''" "c \<noteq> CHR ''+''" "c \<noteq> CHR ''*''"
    "c \<noteq> CHR ''/''" "c \<noteq> CHR ''^''" "c \<noteq> CHR '')''" "c \<noteq> CHR ''(''" "c \<noteq> CHR '' ''"
    "c \<noteq> CHR 0x09" "c \<noteq> CHR 0x0D" "c \<noteq> CHR 0x0A"
  using assms by (auto simp: is_sym_start_def is_digit_def)

lemma takeWhile_identifier:
  "list_all is_sym_char cs \<Longrightarrow> ends_identifier rest \<Longrightarrow> takeWhile is_sym_char (cs @ rest) = cs"
  by (induction cs) (auto simp: ends_identifier_def split: list.splits)

lemma reg_sym_identifier:
  "is_identifier m \<Longrightarrow> ends_identifier rest \<Longrightarrow> reg_sym (m @ rest) = Some m"
  by (cases m) (auto simp: reg_sym_def takeWhile_identifier)

lemma reg_float_identifier: "is_sym_start c \<Longrightarrow> reg_float (c # cs) = None"
  by (simp add: reg_float_def strip_minus_def sym_start_other)

lemma reg_int_identifier: "is_sym_start c \<Longrightarrow> reg_int (c # cs) = None"
  by (simp add: reg_int_def strip_minus_def sym_start_other)

lemma get_property_own:
  "m \<notin> set Object_prototype \<Longrightarrow> get_property obj m = map_of obj m"
  by (simp add: get_property_def split: option.splits)

lemma lex_loop_identifier:
  assumes "is_identifier m" and "ends_identifier rest" and "m \<notin> set Object_prototype"
  shows "lex_loop acc (m @ rest) = classify_by_tables acc m rest"
proof -
  from assms(1) obtain c cs where m: "m = c # cs" and c: "is_sym_start c"
    by (cases m) auto
  have "reg_sym (c # cs @ rest) = Some m"
    using reg_sym_identifier[OF assms(1,2)] m by simp
  moreover have "get_property function_table (c # cs) = map_of function_table (c # cs)"
    "get_property constant_table (c # cs) = map_of constant_table (c # cs)"
    using assms(3) m by (simp_all add: get_property_own)
  ultimately show ?thesis
    unfolding classify_by_tables_def m
    by (simp add: sym_start_other[OF c] reg_float_identifier[OF c] reg_int_identifier[OF c] m
        split: option.splits)
qed

text \<open>
  C7. The tokenizer classifies an identifier in the order claimed: \<^verbatim>\<open>x\<close> or \<^verbatim>\<open>y\<close>, then the
  function table, then the constant table, then the error \<^verbatim>\<open>"unknown symbol " + name\<close>.
  It does so for every identifier but the names of \<^verbatim>\<open>Object.prototype\<close>: the tables are
  object literals, and \<^verbatim>\<open>function_table[name]\<close> finds what they inherit. \<^verbatim>\<open>toString\<close> is
  none of the table's functions and none of its constants, and the tokenizer makes a
  function token of it instead of throwing \<^verbatim>\<open>"unknown symbol toString"\<close>.
\<close>

theorem identifier_classification:
  "(is_identifier m \<and> ends_identifier rest \<and> m \<notin> set Object_prototype
      \<longrightarrow> lex_loop acc (m @ rest) = classify_by_tables acc m rest)
   \<and> lex_scan ''toString'' = Inr [create_function_token (PrototypeMember ''toString'')]
   \<and> classify_by_tables [] ''toString'' [] = Inl (Thrown ''unknown symbol toString'')
   \<and> lex_scan ''foo2'' = Inl (Thrown ''unknown symbol foo2'')"
proof -
  have "lex_scan ''toString'' = Inr [create_function_token (PrototypeMember ''toString'')]"
    "lex_scan ''foo2'' = Inl (Thrown ''unknown symbol foo2'')"
    by (simp_all add: lex_defs)
  moreover have
    "classify_by_tables [] ''toString'' [] = Inl (Thrown ''unknown symbol toString'')"
    by (simp add: classify_by_tables_def function_table_def constant_table_def)
  ultimately show ?thesis
    using lex_loop_identifier by blast
qed

theorem identifier_classification_witness:
  "is_identifier ''sin'' \<and> ends_identifier '' 0'' \<and> ''sin'' \<notin> set Object_prototype
   \<and> lex_loop [] ''sin 0'' = classify_by_tables [] ''sin'' '' 0''
   \<and> lex_loop [] ''sin 0'' =
       Inr [create_function_token (Callable Fsin), create_value_token (Number (Fin 0))]"
  using identifier_classification [of "''sin''" "'' 0''" "[]"]
  by (simp add: lex_defs ends_identifier_def)

end
